theory Spec2Isabelle
  imports Complex_Main
begin

section \<open>Conventions of the embedding\<close>

text \<open>
  The sources are \<^verbatim>\<open>pythonScript/dynamic_geofencing.py\<close> and
  \<^verbatim>\<open>pythonScript/enhanced_route_optimizer.py\<close>.

  \<^item> Python floats are modelled as \<^typ>\<open>real\<close>: arithmetic is exact, rounding and
    NaN are outside the model.
  \<^item> A \<^verbatim>\<open>datetime\<close> is a \<^typ>\<open>real\<close> number of seconds on the wall clock.
    Every call of \<^verbatim>\<open>datetime.now()\<close> is an explicit argument of the function that
    makes it, one argument per reading.
  \<^item> The safety predictor is an external collaborator: a function from latitude
    and longitude (and a time, in the optimizer) to a score. \<^verbatim>\<open>safety_model=None\<close>
    is \<^term>\<open>None\<close>.
  \<^item> The alert payloads built by the \<^verbatim>\<open>_trigger_*_alert\<close> methods are printed and
    then dropped by their caller; they do not reach the state or the result and are
    not modelled.
\<close>

section \<open>numpy functions used by the sources\<close>

definition radians :: "real \<Rightarrow> real" where
  "radians x = x * pi / 180"

definition degrees :: "real \<Rightarrow> real" where
  "degrees x = x * 180 / pi"

text \<open>\<^verbatim>\<open>np.arctan2(y, x)\<close>: the angle of the point \<open>(x, y)\<close>, in \<open>(-pi, pi]\<close>.\<close>

definition arctan2 :: "real \<Rightarrow> real \<Rightarrow> real" where
  "arctan2 y x =
     (if 0 < x then arctan (y / x)
      else if x < 0 then (if 0 \<le> y then arctan (y / x) + pi else arctan (y / x) - pi)
      else if 0 < y then pi / 2
      else if y < 0 then - (pi / 2)
      else 0)"

text \<open>Python's \<^verbatim>\<open>x % m\<close> on floats, for a positive modulus: the result is in \<open>[0, m)\<close>.\<close>

definition py_mod :: "real \<Rightarrow> real \<Rightarrow> real" where
  "py_mod x m = x - m * of_int \<lfloor>x / m\<rfloor>"

text \<open>\<^verbatim>\<open>np.mean\<close> and \<^verbatim>\<open>np.std\<close> (population standard deviation) of a non-empty list.\<close>

definition np_mean :: "real list \<Rightarrow> real" where
  "np_mean xs = sum_list xs / real (length xs)"

definition np_std :: "real list \<Rightarrow> real" where
  "np_std xs = sqrt (np_mean (map (\<lambda>x. (x - np_mean xs)\<^sup>2) xs))"



section \<open>Geo math: \<^verbatim>\<open>_calculate_distance\<close> and \<^verbatim>\<open>_calculate_bearing\<close>\<close>

text \<open>The haversine term \<^verbatim>\<open>a\<close> of \<^verbatim>\<open>_calculate_distance\<close>.\<close>

definition haversine_a :: "real \<Rightarrow> real \<Rightarrow> real \<Rightarrow> real \<Rightarrow> real" where
  "haversine_a lat1 lng1 lat2 lng2 =
     (let dlat = radians (lat2 - lat1);
          dlng = radians (lng2 - lng1)
      in sin (dlat / 2) * sin (dlat / 2) +
         cos (radians lat1) * cos (radians lat2) * sin (dlng / 2) * sin (dlng / 2))"

text \<open>\<^verbatim>\<open>_calculate_distance\<close>, the same text in \<^verbatim>\<open>DynamicGeofencing\<close> and in
  \<^verbatim>\<open>EnhancedRouteOptimizer\<close>: the distance in meters.\<close>

definition calculate_distance :: "real \<Rightarrow> real \<Rightarrow> real \<Rightarrow> real \<Rightarrow> real" where
  "calculate_distance lat1 lng1 lat2 lng2 =
     (let R = 6371000;
          a = haversine_a lat1 lng1 lat2 lng2;
          c = 2 * arctan2 (sqrt a) (sqrt (1 - a))
      in R * c)"

definition calculate_bearing :: "real \<Rightarrow> real \<Rightarrow> real \<Rightarrow> real \<Rightarrow> real" where
  "calculate_bearing lat1 lng1 lat2 lng2 =
     (let dlng = radians (lng2 - lng1);
          y = sin dlng * cos (radians lat2);
          x = cos (radians lat1) * sin (radians lat2) -
              sin (radians lat1) * cos (radians lat2) * cos dlng;
          bearing = degrees (arctan2 y x)
      in py_mod (bearing + 360) 360)"

section \<open>The geofencing anomaly detector: \<^verbatim>\<open>DynamicGeofencing\<close>\<close>

datatype AlertPhase = NORMAL | SOFT_CHECK | ESCALATION | EMERGENCY

record LocationData =
  lat :: real
  lng :: real
  timestamp :: real
  speed :: real
  accuracy :: real

record SafetyZone =
  center_lat :: real
  center_lng :: real
  radius :: real
  zone_safety_score :: real
  zone_type :: string

record DynamicGeofencing =
  safety_model :: "(real \<Rightarrow> real \<Rightarrow> real) option"
  user_location_history :: "LocationData list"
  planned_route :: "(real \<times> real) list"
  safety_zones :: "SafetyZone list"
  current_phase :: AlertPhase

text \<open>The three thresholds that \<^verbatim>\<open>__init__\<close> sets and nothing changes.\<close>

definition anomaly_threshold :: real where
  "anomaly_threshold = 5"

definition speed_threshold :: real where
  "speed_threshold = 1"

definition safety_score_threshold :: real where
  "safety_score_threshold = 30"

definition init_geofencing :: "(real \<Rightarrow> real \<Rightarrow> real) option \<Rightarrow> DynamicGeofencing" where
  "init_geofencing m =
     \<lparr>safety_model = m, user_location_history = [], planned_route = [],
      safety_zones = [], current_phase = NORMAL\<rparr>"

text \<open>The score the detector uses at a point: the predictor's, or 50 without one.\<close>

definition score_at :: "DynamicGeofencing \<Rightarrow> real \<Rightarrow> real \<Rightarrow> real" where
  "score_at g la lg = (case safety_model g of Some predict \<Rightarrow> predict la lg | None \<Rightarrow> 50)"

definition classify_zone_type :: "real \<Rightarrow> string" where
  "classify_zone_type s =
     (if 70 \<le> s then ''safe'' else if 40 \<le> s then ''moderate'' else ''high_risk'')"

definition calculate_zone_radius :: "real \<Rightarrow> real" where
  "calculate_zone_radius s = 50 + (s / 100) * 100"

definition create_safety_zones :: "DynamicGeofencing \<Rightarrow> (real \<times> real) list \<Rightarrow> SafetyZone list" where
  "create_safety_zones g route =
     map (\<lambda>(la, lg).
            let s = score_at g la lg
            in \<lparr>center_lat = la, center_lng = lg, radius = calculate_zone_radius s,
                zone_safety_score = s, zone_type = classify_zone_type s\<rparr>) route"

definition set_planned_route :: "DynamicGeofencing \<Rightarrow> (real \<times> real) list \<Rightarrow> DynamicGeofencing" where
  "set_planned_route g route =
     g\<lparr>planned_route := route, safety_zones := create_safety_zones g route\<rparr>"

text \<open>The loop of \<^verbatim>\<open>_get_stopped_duration\<close> over the reversed history: the
  accumulator is \<^verbatim>\<open>stopped_start\<close>, assigned only while it is still \<^verbatim>\<open>None\<close>;
  a sample above the speed threshold is the \<^verbatim>\<open>break\<close>.\<close>

fun stopped_start_loop :: "LocationData list \<Rightarrow> real option \<Rightarrow> real option" where
  "stopped_start_loop [] stopped_start = stopped_start"
| "stopped_start_loop (location # rest) stopped_start =
     (if speed location \<le> speed_threshold
      then stopped_start_loop rest
             (if stopped_start = None then Some (timestamp location) else stopped_start)
      else stopped_start)"

text \<open>\<^verbatim>\<open>_get_stopped_duration\<close>, in minutes; \<open>now\<close> is its reading of the clock.\<close>

definition get_stopped_duration :: "real \<Rightarrow> DynamicGeofencing \<Rightarrow> real" where
  "get_stopped_duration now g =
     (if length (user_location_history g) < 2 then 0
      else case stopped_start_loop (rev (user_location_history g)) None of
             Some stopped_start \<Rightarrow> (now - stopped_start) / 60
           | None \<Rightarrow> 0)"

definition is_stopped_in_unsafe_area :: "real \<Rightarrow> DynamicGeofencing \<Rightarrow> LocationData \<Rightarrow> bool" where
  "is_stopped_in_unsafe_area now g current_location =
     (if speed current_location > speed_threshold then False
      else if score_at g (lat current_location) (lng current_location) < safety_score_threshold
      then get_stopped_duration now g > anomaly_threshold
      else False)"

text \<open>The loop of \<^verbatim>\<open>_has_deviated_from_route\<close>. \<^verbatim>\<open>min_distance\<close> starts at
  \<^verbatim>\<open>float('inf')\<close>, which is \<^term>\<open>None\<close> here.\<close>

fun min_distance_loop :: "LocationData \<Rightarrow> (real \<times> real) list \<Rightarrow> real option \<Rightarrow> real option" where
  "min_distance_loop cur [] min_distance = min_distance"
| "min_distance_loop cur ((route_lat, route_lng) # rest) min_distance =
     (let distance = calculate_distance (lat cur) (lng cur) route_lat route_lng
      in min_distance_loop cur rest
           (case min_distance of None \<Rightarrow> Some distance | Some m \<Rightarrow> Some (min m distance)))"

definition has_deviated_from_route :: "DynamicGeofencing \<Rightarrow> LocationData \<Rightarrow> bool" where
  "has_deviated_from_route g current_location =
     (if planned_route g = [] then False
      else case min_distance_loop current_location (planned_route g) None of
             None \<Rightarrow> True
           | Some min_distance \<Rightarrow> min_distance > 200)"

text \<open>The body of the loop of \<^verbatim>\<open>_has_unusual_movement_pattern\<close> at index \<open>i\<close>:
  the bearing difference of the two segments that meet at sample \<open>i\<close>.\<close>

definition bearing_diff_at :: "LocationData list \<Rightarrow> nat \<Rightarrow> real" where
  "bearing_diff_at recent i =
     (let prev_bearing = calculate_bearing (lat (recent ! (i - 1))) (lng (recent ! (i - 1)))
                                           (lat (recent ! i)) (lng (recent ! i));
          curr_bearing = calculate_bearing (lat (recent ! i)) (lng (recent ! i))
                                           (lat (recent ! (i + 1))) (lng (recent ! (i + 1)));
          bearing_diff = \<bar>curr_bearing - prev_bearing\<bar>
      in if bearing_diff > 180 then 360 - bearing_diff else bearing_diff)"

text \<open>The loop \<^verbatim>\<open>for i in range(1, len(recent_locations) - 1)\<close>, counting.\<close>

fun direction_changes_loop :: "LocationData list \<Rightarrow> nat list \<Rightarrow> nat \<Rightarrow> nat" where
  "direction_changes_loop recent [] direction_changes = direction_changes"
| "direction_changes_loop recent (i # is) direction_changes =
     direction_changes_loop recent is
       (if bearing_diff_at recent i > 90 then direction_changes + 1 else direction_changes)"

text \<open>The slice \<^verbatim>\<open>xs[-n:]\<close> for a positive \<open>n\<close>.\<close>

definition last_n :: "nat \<Rightarrow> 'a list \<Rightarrow> 'a list" where
  "last_n n xs = drop (length xs - n) xs"

definition has_unusual_movement_pattern :: "DynamicGeofencing \<Rightarrow> bool" where
  "has_unusual_movement_pattern g =
     (if length (user_location_history g) < 5 then False
      else let recent_locations = last_n 5 (user_location_history g)
           in direction_changes_loop recent_locations
                [1 ..< length recent_locations - 1] 0 > 2)"

definition detect_anomalies :: "real \<Rightarrow> DynamicGeofencing \<Rightarrow> LocationData \<Rightarrow> bool" where
  "detect_anomalies now g current_location =
     (if length (user_location_history g) < 2 then False
      else if is_stopped_in_unsafe_area now g current_location then True
      else if has_deviated_from_route g current_location then True
      else if has_unusual_movement_pattern g then True
      else False)"

text \<open>Both acknowledgement checks return \<^verbatim>\<open>False\<close> in the source.\<close>

definition user_responded_to_soft_check :: bool where
  "user_responded_to_soft_check = False"

definition user_responded_to_escalation :: bool where
  "user_responded_to_escalation = False"

definition handle_anomaly :: "DynamicGeofencing \<Rightarrow> DynamicGeofencing" where
  "handle_anomaly g =
     (if current_phase g = NORMAL then g\<lparr>current_phase := SOFT_CHECK\<rparr>
      else if current_phase g = SOFT_CHECK
      then (if \<not> user_responded_to_soft_check then g\<lparr>current_phase := ESCALATION\<rparr> else g)
      else if current_phase g = ESCALATION
      then (if \<not> user_responded_to_escalation then g\<lparr>current_phase := EMERGENCY\<rparr> else g)
      else g)"

text \<open>\<^verbatim>\<open>update_user_location\<close>: \<open>t_sample\<close> is the clock reading that stamps the
  new sample, \<open>t_check\<close> the later reading inside \<^verbatim>\<open>_get_stopped_duration\<close>. The
  result is the returned flag and the detector after the call.\<close>

definition update_user_location ::
  "real \<Rightarrow> real \<Rightarrow> DynamicGeofencing \<Rightarrow> real \<Rightarrow> real \<Rightarrow> real \<Rightarrow> real \<Rightarrow> bool \<times> DynamicGeofencing" where
  "update_user_location t_sample t_check g la lg sp ac =
     (let current_location =
            \<lparr>lat = la, lng = lg, timestamp = t_sample, speed = sp, accuracy = ac\<rparr>;
          h = user_location_history g @ [current_location];
          g1 = g\<lparr>user_location_history := (if length h > 100 then last_n 100 h else h)\<rparr>;
          anomaly_detected = detect_anomalies t_check g1 current_location
      in (anomaly_detected, if anomaly_detected then handle_anomaly g1 else g1))"

text \<open>\<^verbatim>\<open>get_current_safety_status\<close> returns one of two dictionaries.\<close>

record SafetyStatus =
  status_phase :: string
  status_safety_score :: real
  status_lat :: real
  status_lng :: real
  status_timestamp :: real
  status_speed :: real
  stopped_duration :: real

datatype StatusReport = No_location_data | Status SafetyStatus

definition phase_value :: "AlertPhase \<Rightarrow> string" where
  "phase_value p =
     (case p of NORMAL \<Rightarrow> ''normal'' | SOFT_CHECK \<Rightarrow> ''soft_check''
      | ESCALATION \<Rightarrow> ''escalation'' | EMERGENCY \<Rightarrow> ''emergency'')"

definition get_current_safety_status :: "real \<Rightarrow> DynamicGeofencing \<Rightarrow> StatusReport" where
  "get_current_safety_status now g =
     (if user_location_history g = [] then No_location_data
      else let current_location = last (user_location_history g)
           in Status
                \<lparr>status_phase = phase_value (current_phase g),
                 status_safety_score = score_at g (lat current_location) (lng current_location),
                 status_lat = lat current_location,
                 status_lng = lng current_location,
                 status_timestamp = timestamp current_location,
                 status_speed = speed current_location,
                 stopped_duration = get_stopped_duration now g\<rparr>)"

section \<open>The route safety optimizer: \<^verbatim>\<open>EnhancedRouteOptimizer\<close>\<close>

datatype py_error = IndexError | ZeroDivisionError

record RoutePoint =
  point_lat :: real
  point_lng :: real
  safety_score :: real
  point_timestamp :: real
  estimated_travel_time :: real

record OptimizedRoute =
  points :: "RoutePoint list"
  total_safety_score :: real
  total_travel_time :: real
  route_confidence :: real

text \<open>A step of a directions route: \<^verbatim>\<open>start_location\<close>, \<^verbatim>\<open>end_location\<close> and
  \<^verbatim>\<open>duration.value\<close> (seconds). A route is its legs, each leg its steps.\<close>

record Step =
  start_location :: "real \<times> real"
  end_location :: "real \<times> real"
  duration_value :: real

record Route =
  legs :: "Step list list"
  summary :: string

record EnhancedRouteOptimizer =
  route_safety_model :: "(real \<Rightarrow> real \<Rightarrow> real \<Rightarrow> real) option"
  google_maps_api_key :: "string option"





definition calculate_route_confidence :: "real list \<Rightarrow> real" where
  "calculate_route_confidence safety_scores =
     (if safety_scores = [] then 0
      else let mean_score = np_mean safety_scores;
               std_score = np_std safety_scores;
               consistency_factor = max 0 (1 - std_score / 50);
               score_factor = mean_score / 100
           in min 1 ((consistency_factor + score_factor) / 2))"

text \<open>The loop of \<^verbatim>\<open>_calculate_route_safety_scores\<close> over the steps, with its four
  variables: \<^verbatim>\<open>points\<close>, \<^verbatim>\<open>current_time\<close>, \<^verbatim>\<open>total_safety_score\<close> and
  \<^verbatim>\<open>total_travel_time\<close>.\<close>

fun score_steps ::
  "EnhancedRouteOptimizer \<Rightarrow> Step list \<Rightarrow> RoutePoint list \<Rightarrow> real \<Rightarrow> real \<Rightarrow> real
     \<Rightarrow> RoutePoint list \<times> real \<times> real" where
  "score_steps opt [] pts current_time tss ttt = (pts, tss, ttt)"
| "score_steps opt (step # rest) pts current_time tss ttt =
     (let start_lat = fst (start_location step);
          start_lng = snd (start_location step);
          score = (case route_safety_model opt of
                     Some predict \<Rightarrow> predict start_lat start_lng current_time
                   | None \<Rightarrow> 50);
          step_duration = duration_value step / 60;
          route_point = \<lparr>point_lat = start_lat, point_lng = start_lng, safety_score = score,
                         point_timestamp = current_time,
                         estimated_travel_time = step_duration\<rparr>
      in score_steps opt rest (pts @ [route_point]) (current_time + step_duration * 60)
           (tss + score) (ttt + step_duration))"

definition calculate_route_safety_scores ::
  "EnhancedRouteOptimizer \<Rightarrow> Route \<Rightarrow> real \<Rightarrow> py_error + OptimizedRoute" where
  "calculate_route_safety_scores opt route departure_time =
     (case legs route of
        [] \<Rightarrow> Inl IndexError
      | leg # _ \<Rightarrow>
          (case score_steps opt leg [] departure_time 0 0 of
             (pts, tss, ttt) \<Rightarrow>
               Inr \<lparr>points = pts, total_safety_score = tss, total_travel_time = ttt,
                    route_confidence = calculate_route_confidence (map safety_score pts)\<rparr>))"






section \<open>The specification's reading of the checks\<close>

text \<open>The trailing run of stopped samples as the specification words it: walk backward
  from the newest sample until a sample above the stop threshold breaks the run. Its span
  is the difference of the timestamps of its newest and its oldest sample, in minutes.\<close>

definition spec_trailing_stopped_run :: "LocationData list \<Rightarrow> LocationData list" where
  "spec_trailing_stopped_run h = takeWhile (\<lambda>l. speed l \<le> speed_threshold) (rev h)"

definition spec_stopped_run_minutes :: "LocationData list \<Rightarrow> real" where
  "spec_stopped_run_minutes h =
     (case spec_trailing_stopped_run h of
        [] \<Rightarrow> 0
      | newest # older \<Rightarrow> (timestamp newest - timestamp (last (newest # older))) / 60)"

definition spec_unsafe_stop :: "DynamicGeofencing \<Rightarrow> LocationData \<Rightarrow> bool" where
  "spec_unsafe_stop g cur =
     (speed cur \<le> speed_threshold \<and>
      score_at g (lat cur) (lng cur) < safety_score_threshold \<and>
      spec_stopped_run_minutes (user_location_history g) > anomaly_threshold)"

text \<open>The stopped duration a status report carries, if it carries one.\<close>

definition reported_stopped_duration :: "StatusReport \<Rightarrow> real option" where
  "reported_stopped_duration r =
     (case r of No_location_data \<Rightarrow> None | Status s \<Rightarrow> Some (stopped_duration s))"


section \<open>The specification's reading of the optimizer\<close>



text \<open>The route points that the scoring loop appends for a list of steps, the clock
  starting at \<open>t\<close>.\<close>

fun step_points :: "EnhancedRouteOptimizer \<Rightarrow> Step list \<Rightarrow> real \<Rightarrow> RoutePoint list" where
  "step_points opt [] t = []"
| "step_points opt (step # rest) t =
     \<lparr>point_lat = fst (start_location step), point_lng = snd (start_location step),
      safety_score = (case route_safety_model opt of
                        Some predict \<Rightarrow>
                          predict (fst (start_location step)) (snd (start_location step)) t
                      | None \<Rightarrow> 50),
      point_timestamp = t, estimated_travel_time = duration_value step / 60\<rparr>
     # step_points opt rest (t + duration_value step / 60 * 60)"


section \<open>Example runs\<close>

text \<open>A detector with a predictor that scores every point 10 and the one-point planned
  route \<open>[(0, 0)]\<close>; then a first sample on the route and four samples half a world
  away, at \<open>(0, 180)\<close>.\<close>

definition demo_g0 :: DynamicGeofencing where
  "demo_g0 = set_planned_route (init_geofencing (Some (\<lambda>la lg. 10))) [(0, 0)]"

definition demo_g1 :: DynamicGeofencing where
  "demo_g1 = snd (update_user_location 0 0 demo_g0 0 0 5 10)"

definition demo_g2 :: DynamicGeofencing where
  "demo_g2 = snd (update_user_location 60 60 demo_g1 0 180 5 10)"

definition demo_g3 :: DynamicGeofencing where
  "demo_g3 = snd (update_user_location 120 120 demo_g2 0 180 5 10)"

definition demo_g4 :: DynamicGeofencing where
  "demo_g4 = snd (update_user_location 180 180 demo_g3 0 180 5 10)"

text \<open>A detector with the same predictor and no planned route: a stopped sample at
  time 0 at \<open>(0, 0)\<close>, and a second stopped sample there 6 minutes later, whose update
  call takes one second to reach the duration check.\<close>

definition demo_stop0 :: DynamicGeofencing where
  "demo_stop0 = init_geofencing (Some (\<lambda>la lg. 10))"

definition demo_stop1 :: DynamicGeofencing where
  "demo_stop1 = snd (update_user_location 0 0 demo_stop0 0 0 0 10)"

definition demo_stop2 :: DynamicGeofencing where
  "demo_stop2 = snd (update_user_location 360 361 demo_stop1 0 0 0 10)"





definition demo_optimizer_plain :: EnhancedRouteOptimizer where
  "demo_optimizer_plain = \<lparr>route_safety_model = None, google_maps_api_key = None\<rparr>"

definition demo_route :: Route where
  "demo_route =
     \<lparr>legs = [[\<lparr>start_location = (0, 0), end_location = (0, 1), duration_value = 300\<rparr>,
               \<lparr>start_location = (0, 1), end_location = (0, 2), duration_value = 300\<rparr>,
               \<lparr>start_location = (0, 2), end_location = (0, 3), duration_value = 300\<rparr>]],
      summary = ''demo''\<rparr>"






section \<open>Geo math\<close>







text \<open>From \<open>(0, 180)\<close> to \<open>(0, 0)\<close> is half the circumference.\<close>

lemma calculate_distance_antipode: "calculate_distance 0 180 0 0 = 6371000 * pi"
  by (simp add: calculate_distance_def haversine_a_def radians_def arctan2_def)

lemma antipode_beyond_200: "200 < calculate_distance 0 180 0 0"
proof -
  have "(200::real) < 6371000 * 2" by simp
  also have "\<dots> \<le> 6371000 * pi" using pi_ge_two by simp
  finally show ?thesis by (simp add: calculate_distance_antipode)
qed


section \<open>One location update\<close>

lemma handle_anomaly_phase:
  "current_phase (handle_anomaly g) =
     (case current_phase g of NORMAL \<Rightarrow> SOFT_CHECK | SOFT_CHECK \<Rightarrow> ESCALATION
      | ESCALATION \<Rightarrow> EMERGENCY | EMERGENCY \<Rightarrow> EMERGENCY)"
  by (cases "current_phase g")
     (simp_all add: handle_anomaly_def user_responded_to_soft_check_def
        user_responded_to_escalation_def)

lemma update_history:
  "user_location_history (snd (update_user_location t_sample t_check g la lg sp ac)) =
     (let h = user_location_history g @
                [\<lparr>lat = la, lng = lg, timestamp = t_sample, speed = sp, accuracy = ac\<rparr>]
      in if length h > 100 then last_n 100 h else h)"
  by (simp add: update_user_location_def Let_def handle_anomaly_def)

lemma update_flag:
  "fst (update_user_location t_sample t_check g la lg sp ac) =
     (let cur = \<lparr>lat = la, lng = lg, timestamp = t_sample, speed = sp, accuracy = ac\<rparr>;
          h = user_location_history g @ [cur]
      in detect_anomalies t_check
           (g\<lparr>user_location_history := (if length h > 100 then last_n 100 h else h)\<rparr>) cur)"
  by (simp add: update_user_location_def Let_def)

lemma update_route:
  "planned_route (snd (update_user_location t_sample t_check g la lg sp ac)) = planned_route g"
  by (simp add: update_user_location_def Let_def handle_anomaly_def)

lemma update_history_nonempty:
  "user_location_history (snd (update_user_location t_sample t_check g la lg sp ac)) \<noteq> []"
  by (simp add: update_history Let_def last_n_def)


lemma detect_anomalies_deviated:
  "2 \<le> length (user_location_history g) \<Longrightarrow> has_deviated_from_route g cur \<Longrightarrow>
   detect_anomalies now g cur"
  by (simp add: detect_anomalies_def)

text \<open>With the planned route \<open>[(0, 0)]\<close> and a sample already in the history, an update
  at \<open>(0, 180)\<close> is anomaly-positive.\<close>

lemma far_deviates:
  assumes r: "planned_route g = [(0, 0)]" and h: "user_location_history g \<noteq> []"
  shows "fst (update_user_location t_sample t_check g 0 180 sp ac)"
proof -
  let ?cur = "\<lparr>lat = 0, lng = 180, timestamp = t_sample, speed = sp, accuracy = ac\<rparr>"
  let ?h = "user_location_history g @ [?cur]"
  let ?g1 = "g\<lparr>user_location_history := (if length ?h > 100 then last_n 100 ?h else ?h)\<rparr>"
  from h obtain x xs where hx: "user_location_history g = x # xs"
    by (cases "user_location_history g") auto
  have len: "2 \<le> length (user_location_history ?g1)"
    by (simp add: hx last_n_def)
  have dev: "has_deviated_from_route ?g1 ?cur"
    using antipode_beyond_200 r by (simp add: has_deviated_from_route_def)
  show ?thesis
    unfolding update_flag Let_def by (rule detect_anomalies_deviated [OF len dev])
qed

lemma demo_routes:
  "planned_route demo_g0 = [(0, 0)]" "planned_route demo_g1 = [(0, 0)]"
  "planned_route demo_g2 = [(0, 0)]" "planned_route demo_g3 = [(0, 0)]"
  "planned_route demo_g4 = [(0, 0)]"
  by (simp_all add: demo_g4_def demo_g3_def demo_g2_def demo_g1_def update_route demo_g0_def
      set_planned_route_def)

lemma demo_histories:
  "user_location_history demo_g0 = []" "user_location_history demo_g1 \<noteq> []"
  "user_location_history demo_g2 \<noteq> []" "user_location_history demo_g3 \<noteq> []"
  "user_location_history demo_g4 \<noteq> []"
  by (simp_all add: demo_g1_def demo_g2_def demo_g3_def demo_g4_def update_history_nonempty
      demo_g0_def set_planned_route_def init_geofencing_def)

lemma demo_g0_phase: "current_phase demo_g0 = NORMAL"
  by (simp add: demo_g0_def set_planned_route_def init_geofencing_def)

lemma demo_g1_phase: "current_phase demo_g1 = NORMAL"
  by (simp add: demo_g1_def demo_g0_def set_planned_route_def init_geofencing_def
      update_user_location_def Let_def detect_anomalies_def)

section \<open>The escalation ladder\<close>

text \<open>
  \<^bold>\<open>Claim C1.\<close> An anomaly-positive \<^verbatim>\<open>update_user_location\<close> moves the phase exactly
  one rung up the ladder NORMAL, SOFT_CHECK, ESCALATION, EMERGENCY, and leaves EMERGENCY
  where it is; an anomaly-negative update leaves the phase unchanged. The source's
  acknowledgement checks always answer "no".
\<close>

theorem phase_ladder:
  "(let u = update_user_location t_sample t_check g la lg sp ac
    in (fst u \<longrightarrow>
          (current_phase g = NORMAL \<longrightarrow> current_phase (snd u) = SOFT_CHECK) \<and>
          (current_phase g = SOFT_CHECK \<longrightarrow> current_phase (snd u) = ESCALATION) \<and>
          (current_phase g = ESCALATION \<longrightarrow> current_phase (snd u) = EMERGENCY) \<and>
          (current_phase g = EMERGENCY \<longrightarrow> current_phase (snd u) = EMERGENCY)) \<and>
       (\<not> fst u \<longrightarrow> current_phase (snd u) = current_phase g))"
  by (simp add: update_user_location_def Let_def handle_anomaly_phase)

text \<open>The example run: three anomaly-positive updates from NORMAL reach EMERGENCY one rung
  at a time, and a fourth stays there.\<close>

theorem phase_ladder_witness:
  "current_phase demo_g1 = NORMAL \<and> current_phase demo_g2 = SOFT_CHECK \<and>
   current_phase demo_g3 = ESCALATION \<and> current_phase demo_g4 = EMERGENCY \<and>
   fst (update_user_location 240 240 demo_g4 0 180 5 10) \<and>
   current_phase (snd (update_user_location 240 240 demo_g4 0 180 5 10)) = EMERGENCY"
proof -
  have a1: "fst (update_user_location 60 60 demo_g1 0 180 5 10)"
    by (rule far_deviates) (simp_all add: demo_routes demo_histories)
  have a2: "fst (update_user_location 120 120 demo_g2 0 180 5 10)"
    by (rule far_deviates) (simp_all add: demo_routes demo_histories)
  have a3: "fst (update_user_location 180 180 demo_g3 0 180 5 10)"
    by (rule far_deviates) (simp_all add: demo_routes demo_histories)
  have a4: "fst (update_user_location 240 240 demo_g4 0 180 5 10)"
    by (rule far_deviates) (simp_all add: demo_routes demo_histories)
  have p1: "current_phase demo_g1 = NORMAL" by (rule demo_g1_phase)
  have p2: "current_phase demo_g2 = SOFT_CHECK"
    using phase_ladder [of 60 60 demo_g1 0 180 5 10] a1 p1 by (simp add: Let_def demo_g2_def)
  have p3: "current_phase demo_g3 = ESCALATION"
    using phase_ladder [of 120 120 demo_g2 0 180 5 10] a2 p2 by (simp add: Let_def demo_g3_def)
  have p4: "current_phase demo_g4 = EMERGENCY"
    using phase_ladder [of 180 180 demo_g3 0 180 5 10] a3 p3 by (simp add: Let_def demo_g4_def)
  have p5: "current_phase (snd (update_user_location 240 240 demo_g4 0 180 5 10)) = EMERGENCY"
    using phase_ladder [of 240 240 demo_g4 0 180 5 10] a4 p4 by (simp add: Let_def)
  show ?thesis using p1 p2 p3 p4 a4 p5 by simp
qed

section \<open>The first update of a history\<close>

text \<open>
  \<^bold>\<open>Claim C10.\<close> An \<^verbatim>\<open>update_user_location\<close> call that leaves fewer than 2 samples in
  the history returns no anomaly and does not move the phase, whatever the speed, the
  predicted score and the planned route are; the first update of an empty history is
  such a call.
\<close>

theorem first_update_no_anomaly:
  "(let u = update_user_location t_sample t_check g la lg sp ac
    in (length (user_location_history (snd u)) < 2 \<longrightarrow>
          \<not> fst u \<and> current_phase (snd u) = current_phase g) \<and>
       (user_location_history g = [] \<longrightarrow> length (user_location_history (snd u)) < 2))"
proof -
  let ?u = "update_user_location t_sample t_check g la lg sp ac"
  have gate: "\<not> fst ?u" if "length (user_location_history (snd ?u)) < 2"
    using that by (simp add: update_history update_flag Let_def detect_anomalies_def)
  have same: "current_phase (snd ?u) = current_phase g" if "\<not> fst ?u"
    using that by (simp add: update_user_location_def Let_def)
  have first: "length (user_location_history (snd ?u)) < 2" if "user_location_history g = []"
    using that by (simp add: update_history Let_def)
  show ?thesis
    unfolding Let_def using gate same first by blast
qed

text \<open>A stopped first sample, predicted score 10, half a world off the planned route.\<close>

theorem first_update_no_anomaly_witness:
  "user_location_history demo_g0 = [] \<and>
   length (user_location_history (snd (update_user_location 0 0 demo_g0 0 180 0 10))) < 2 \<and>
   \<not> fst (update_user_location 0 0 demo_g0 0 180 0 10) \<and>
   current_phase (snd (update_user_location 0 0 demo_g0 0 180 0 10)) = NORMAL"
  using first_update_no_anomaly [of 0 0 demo_g0 0 180 0 10]
  by (simp add: Let_def demo_histories demo_g0_phase)

section \<open>The stopped duration\<close>

lemma stopped_start_loop_Some: "stopped_start_loop xs (Some t) = Some t"
  by (induction xs) simp_all

text \<open>Once \<^verbatim>\<open>stopped_start\<close> is assigned it is never assigned again: the loop returns
  the timestamp of the newest sample, not of the oldest sample of the run.\<close>

lemma stopped_start_loop_newest:
  "h \<noteq> [] \<Longrightarrow> speed (last h) \<le> speed_threshold \<Longrightarrow>
   stopped_start_loop (rev h) None = Some (timestamp (last h))"
  by (cases h rule: rev_cases) (simp_all add: stopped_start_loop_Some)

lemma stopped_start_loop_moving:
  "h \<noteq> [] \<Longrightarrow> \<not> speed (last h) \<le> speed_threshold \<Longrightarrow>
   stopped_start_loop (rev h) None = None"
  by (cases h rule: rev_cases) simp_all

lemma get_stopped_duration_newest:
  assumes l: "2 \<le> length (user_location_history g)"
    and s: "speed (last (user_location_history g)) \<le> speed_threshold"
  shows "get_stopped_duration now g = (now - timestamp (last (user_location_history g))) / 60"
proof -
  from l have ne: "user_location_history g \<noteq> []" by auto
  show ?thesis
    using l by (simp add: get_stopped_duration_def stopped_start_loop_newest [OF ne s])
qed

text \<open>Inside an update the newest sample is the one just stamped, so the duration that
  the stop check compares with 5 minutes is the time the call itself has taken.\<close>

lemma unsafe_stop_measures_call_time:
  "(let cur = \<lparr>lat = la, lng = lg, timestamp = t_sample, speed = sp, accuracy = ac\<rparr>;
        h = user_location_history g @ [cur];
        g1 = g\<lparr>user_location_history := (if length h > 100 then last_n 100 h else h)\<rparr>
    in is_stopped_in_unsafe_area t_check g1 cur =
         (sp \<le> speed_threshold \<and> score_at g la lg < safety_score_threshold \<and>
          user_location_history g \<noteq> [] \<and> anomaly_threshold < (t_check - t_sample) / 60))"
proof -
  let ?cur = "\<lparr>lat = la, lng = lg, timestamp = t_sample, speed = sp, accuracy = ac\<rparr>"
  let ?h = "user_location_history g @ [?cur]"
  let ?g1 = "g\<lparr>user_location_history := (if length ?h > 100 then last_n 100 ?h else ?h)\<rparr>"
  have la: "last (user_location_history ?g1) = ?cur"
    by (simp add: last_n_def)
  have sc: "score_at ?g1 la lg = score_at g la lg"
    by (simp add: score_at_def)
  show ?thesis
  proof (cases "user_location_history g = []")
    case True
    then show ?thesis
      by (simp add: Let_def is_stopped_in_unsafe_area_def get_stopped_duration_def
          anomaly_threshold_def)
  next
    case False
    then obtain x xs where hx: "user_location_history g = x # xs"
      by (cases "user_location_history g") auto
    have len: "2 \<le> length (user_location_history ?g1)"
      by (simp add: hx last_n_def)
    have d: "get_stopped_duration t_check ?g1 = (t_check - t_sample) / 60"
      if "sp \<le> speed_threshold"
      using get_stopped_duration_newest [OF len, of t_check] that la by simp
    show ?thesis
      unfolding Let_def is_stopped_in_unsafe_area_def using False d sc by auto
  qed
qed

lemma demo_stop1_history:
  "user_location_history demo_stop1 =
     [\<lparr>lat = 0, lng = 0, timestamp = 0, speed = 0, accuracy = 10\<rparr>]"
  by (simp add: demo_stop1_def demo_stop0_def init_geofencing_def update_user_location_def
      Let_def detect_anomalies_def)

lemma demo_stop1_model:
  "safety_model demo_stop1 = Some (\<lambda>la lg. 10)" "planned_route demo_stop1 = []"
  "current_phase demo_stop1 = NORMAL"
  by (simp_all add: demo_stop1_def demo_stop0_def init_geofencing_def update_user_location_def
      Let_def detect_anomalies_def)

lemma demo_stop2_flag: "\<not> fst (update_user_location 360 361 demo_stop1 0 0 0 10)"
  by (simp add: update_user_location_def Let_def detect_anomalies_def demo_stop1_history
      demo_stop1_model is_stopped_in_unsafe_area_def get_stopped_duration_def
      speed_threshold_def score_at_def safety_score_threshold_def anomaly_threshold_def
      has_deviated_from_route_def has_unusual_movement_pattern_def)

lemma demo_stop2_history:
  "user_location_history demo_stop2 =
     [\<lparr>lat = 0, lng = 0, timestamp = 0, speed = 0, accuracy = 10\<rparr>,
      \<lparr>lat = 0, lng = 0, timestamp = 360, speed = 0, accuracy = 10\<rparr>]"
  by (simp add: demo_stop2_def update_history demo_stop1_history Let_def)

lemma demo_stop2_model:
  "safety_model demo_stop2 = Some (\<lambda>la lg. 10)" "planned_route demo_stop2 = []"
  "current_phase demo_stop2 = NORMAL"
  using demo_stop2_flag
  by (simp_all add: demo_stop2_def update_user_location_def Let_def demo_stop1_model)

text \<open>
  \<^bold>\<open>Claim C2.\<close> The claim: the unsafe-stop check fires exactly when the current sample is
  stopped, the predicted score is below 30 and the trailing run of stopped samples spans
  more than 5 minutes; a stopped sample with score 10 held for 6 minutes gives an anomaly.
  The code at that input: two stopped samples 6 minutes apart at a point of score 10. The
  trailing run spans 6 minutes, yet the check does not fire and the update reports no
  anomaly, because \<^verbatim>\<open>_get_stopped_duration\<close> measures from the newest sample.
\<close>

theorem unsafe_stop_not_reported:
  "spec_unsafe_stop demo_stop2 (last (user_location_history demo_stop2)) \<and>
   \<not> is_stopped_in_unsafe_area 361 demo_stop2 (last (user_location_history demo_stop2)) \<and>
   \<not> fst (update_user_location 360 361 demo_stop1 0 0 0 10)"
  by (simp add: demo_stop2_flag demo_stop2_history demo_stop2_model spec_unsafe_stop_def
      spec_stopped_run_minutes_def spec_trailing_stopped_run_def speed_threshold_def score_at_def
      safety_score_threshold_def anomaly_threshold_def is_stopped_in_unsafe_area_def
      get_stopped_duration_def)

section \<open>The status report\<close>

lemma demo_g2_history:
  "length (user_location_history demo_g2) = 2"
  "speed (last (user_location_history demo_g2)) = 5"
  by (simp_all add: demo_g2_def demo_g1_def update_history Let_def demo_histories last_n_def)

text \<open>
  \<^bold>\<open>Claim C9, as amended.\<close> With an empty history \<^verbatim>\<open>get_current_safety_status\<close> returns
  the no-location-data report, which carries no stopped duration. With a non-empty history
  it reports a stopped duration of 0 whenever the history holds fewer than 2 samples or the
  most recent sample is not stopped (speed above 1.0).
\<close>

theorem stopped_duration_zero_cases:
  "(user_location_history g = [] \<longrightarrow> get_current_safety_status now g = No_location_data) \<and>
   (user_location_history g \<noteq> [] \<and>
      (length (user_location_history g) < 2 \<or>
       speed (last (user_location_history g)) > speed_threshold) \<longrightarrow>
    reported_stopped_duration (get_current_safety_status now g) = Some 0)"
proof -
  have z: "get_stopped_duration now g = 0"
    if "user_location_history g \<noteq> []"
      "length (user_location_history g) < 2 \<or>
       speed (last (user_location_history g)) > speed_threshold"
    using that by (auto simp: get_stopped_duration_def stopped_start_loop_moving)
  show ?thesis
    using z by (auto simp: get_current_safety_status_def reported_stopped_duration_def Let_def)
qed

text \<open>An empty history, a history of one stopped sample, and a history of two samples
  whose newest moves at speed 5.\<close>

theorem stopped_duration_zero_cases_witness:
  "get_current_safety_status 600 demo_stop0 = No_location_data \<and>
   reported_stopped_duration (get_current_safety_status 600 demo_stop1) = Some 0 \<and>
   reported_stopped_duration (get_current_safety_status 600 demo_g2) = Some 0"
proof -
  have e: "user_location_history demo_stop0 = []"
    by (simp add: demo_stop0_def init_geofencing_def)
  have one: "user_location_history demo_stop1 \<noteq> []" "length (user_location_history demo_stop1) < 2"
    by (simp_all add: demo_stop1_history)
  have two: "user_location_history demo_g2 \<noteq> []"
    "speed (last (user_location_history demo_g2)) > speed_threshold"
    by (simp_all add: demo_histories demo_g2_history speed_threshold_def)
  show ?thesis
    using stopped_duration_zero_cases [of demo_stop0 600]
      stopped_duration_zero_cases [of demo_stop1 600]
      stopped_duration_zero_cases [of demo_g2 600] e one two
    by simp
qed

text \<open>Against the claim as stated: a report of 0 for a non-empty history whose most recent
  sample is stopped, and no stopped duration at all for an empty history.\<close>

theorem stopped_duration_counterexample:
  "user_location_history demo_stop1 \<noteq> [] \<and>
   speed (last (user_location_history demo_stop1)) \<le> speed_threshold \<and>
   reported_stopped_duration (get_current_safety_status 600 demo_stop1) = Some 0 \<and>
   user_location_history demo_stop0 = [] \<and>
   reported_stopped_duration (get_current_safety_status 600 demo_stop0) = None"
  by (simp add: demo_stop1_history speed_threshold_def get_current_safety_status_def
      reported_stopped_duration_def get_stopped_duration_def Let_def demo_stop0_def
      init_geofencing_def)

section \<open>The checks inside an update\<close>





section \<open>Route deviation\<close>







section \<open>Erratic movement\<close>

















section \<open>Scoring a route\<close>

lemma score_steps_eq:
  "score_steps opt steps pts t tss ttt =
     (pts @ step_points opt steps t,
      tss + sum_list (map safety_score (step_points opt steps t)),
      ttt + sum_list (map (\<lambda>s. duration_value s / 60) steps))"
  by (induction steps arbitrary: pts t tss ttt) (simp_all add: Let_def)

lemma calculate_route_safety_scores_eq:
  "legs route = leg # others \<Longrightarrow>
   calculate_route_safety_scores opt route dep =
     Inr \<lparr>points = step_points opt leg dep,
          total_safety_score = sum_list (map safety_score (step_points opt leg dep)),
          total_travel_time = sum_list (map (\<lambda>s. duration_value s / 60) leg),
          route_confidence = calculate_route_confidence (map safety_score (step_points opt leg dep))\<rparr>"
  by (simp add: calculate_route_safety_scores_def score_steps_eq)

lemma scored_route_total:
  "calculate_route_safety_scores opt route dep = Inr r \<Longrightarrow>
   total_safety_score r = sum_list (map safety_score (points r)) \<and>
   route_confidence r = calculate_route_confidence (map safety_score (points r))"
  by (cases "legs route") (auto simp: calculate_route_safety_scores_def score_steps_eq)

lemma sum_list_const: "\<forall>x \<in> set xs. f x = (c::real) \<Longrightarrow> sum_list (map f xs) = real (length xs) * c"
  by (induction xs) (simp_all add: algebra_simps)

lemma confidence_mono:
  assumes "xs \<noteq> []" "ys \<noteq> []" "np_mean xs = np_mean ys" "np_std xs \<le> np_std ys"
  shows "calculate_route_confidence ys \<le> calculate_route_confidence xs"
proof -
  let ?A = "(max 0 (1 - np_std ys / 50) + np_mean ys / 100) / 2"
  let ?B = "(max 0 (1 - np_std xs / 50) + np_mean xs / 100) / 2"
  have "max 0 (1 - np_std ys / 50) \<le> max 0 (1 - np_std xs / 50)"
    using assms(4) by (intro max.mono) simp_all
  then have "?A \<le> ?B"
    using assms(3) by simp
  then have "min 1 ?A \<le> min 1 ?B"
    by (rule min.mono [OF order_refl])
  then show ?thesis
    by (simp only: calculate_route_confidence_def Let_def assms(1,2) if_False)
qed


lemma confidence_examples:
  "np_mean [50, 50] = 50" "np_std [50, 50] = 0" "np_mean [40, 60] = 50" "np_std [40, 60] = 10"
proof -
  show "np_mean [50, 50] = 50" by (simp add: np_mean_def)
  show "np_mean [40, 60] = 50" by (simp add: np_mean_def)
  show "np_std [50, 50] = 0" by (simp add: np_std_def np_mean_def)
  have "np_std [40, 60] = sqrt (10\<^sup>2)" by (simp add: np_std_def np_mean_def)
  then show "np_std [40, 60] = 10" by simp
qed

lemma demo_route_scored:
  "calculate_route_safety_scores demo_optimizer_plain demo_route 0 =
     Inr \<lparr>points = step_points demo_optimizer_plain (hd (legs demo_route)) 0,
          total_safety_score = 150, total_travel_time = 15,
          route_confidence = 3 / 4\<rparr>"
  by (simp add: calculate_route_safety_scores_eq [of _ "hd (legs demo_route)" "[]"]
      demo_route_def demo_optimizer_plain_def calculate_route_confidence_def Let_def
      confidence_examples np_mean_def np_std_def)

text \<open>
  \<^bold>\<open>Claim C7.\<close> For a non-empty list of point scores the route confidence is
  \<open>min 1 ((max 0 (1 - \<sigma>/50) + \<mu>/100) / 2)\<close>, with \<open>\<mu>\<close> the mean and \<open>\<sigma>\<close> the population
  standard deviation. For equal means, a smaller deviation never gives a smaller
  confidence. A scored route has the sum of its point scores as total safety score and the
  confidence of its point scores, so \<open>N\<close> points of score \<open>S\<close> give the total \<open>N * S\<close>.
  Over the reals.
\<close>

theorem route_confidence_formula:
  "(safety_scores \<noteq> [] \<longrightarrow>
      calculate_route_confidence safety_scores =
        min 1 ((max 0 (1 - np_std safety_scores / 50) + np_mean safety_scores / 100) / 2)) \<and>
   (xs \<noteq> [] \<and> ys \<noteq> [] \<and> np_mean xs = np_mean ys \<and> np_std xs \<le> np_std ys \<longrightarrow>
      calculate_route_confidence ys \<le> calculate_route_confidence xs) \<and>
   (calculate_route_safety_scores opt route departure_time = Inr r \<longrightarrow>
      route_confidence r = calculate_route_confidence (map safety_score (points r)) \<and>
      total_safety_score r = sum_list (map safety_score (points r)) \<and>
      ((\<forall>p \<in> set (points r). safety_score p = S) \<longrightarrow>
         total_safety_score r = real (length (points r)) * S))"
proof -
  have a: "safety_scores \<noteq> [] \<longrightarrow>
      calculate_route_confidence safety_scores =
        min 1 ((max 0 (1 - np_std safety_scores / 50) + np_mean safety_scores / 100) / 2)"
    by (simp add: calculate_route_confidence_def Let_def)
  have c: "total_safety_score r = real (length (points r)) * S"
    if "calculate_route_safety_scores opt route departure_time = Inr r"
      "\<forall>p \<in> set (points r). safety_score p = S"
    using scored_route_total [OF that(1)] sum_list_const [OF that(2)] by simp
  show ?thesis
    using a confidence_mono [of xs ys] scored_route_total [of opt route departure_time r] c
    by blast
qed


text \<open>The scores \<open>[40, 60]\<close> and \<open>[50, 50]\<close> have the mean 50 and the deviations 10 and 0;
  the three-step route scored without a predictor has three points of score 50.\<close>

theorem route_confidence_formula_witness:
  "calculate_route_confidence [40, 60] = 13 / 20 \<and>
   calculate_route_confidence [50, 50] = 3 / 4 \<and>
   calculate_route_confidence [40, 60] \<le> calculate_route_confidence [50, 50] \<and>
   (\<exists>r. calculate_route_safety_scores demo_optimizer_plain demo_route 0 = Inr r \<and>
        length (points r) = 3 \<and> total_safety_score r = 3 * 50)"
proof -
  let ?r = "\<lparr>points = step_points demo_optimizer_plain (hd (legs demo_route)) 0,
          total_safety_score = 150, total_travel_time = 15,
          route_confidence = 3 / 4\<rparr>"
  note th = route_confidence_formula [of _ "[50, 50]" "[40, 60]" demo_optimizer_plain
      demo_route 0 ?r 50]
  have c1: "calculate_route_confidence [40, 60] = 13 / 20"
    using th [of "[40, 60]"] by (simp add: confidence_examples)
  have c2: "calculate_route_confidence [50, 50] = 3 / 4"
    using th [of "[50, 50]"] by (simp add: confidence_examples)
  have c3: "calculate_route_confidence [40, 60] \<le> calculate_route_confidence [50, 50]"
    using th [of "[40, 60]"] by (simp add: confidence_examples)
  have all50: "\<forall>p \<in> set (points ?r). safety_score p = 50"
    by (simp add: demo_route_def demo_optimizer_plain_def)
  have len: "length (points ?r) = 3"
    by (simp add: demo_route_def)
  have "total_safety_score ?r = real (length (points ?r)) * 50"
    using th [of "[40, 60]"] demo_route_scored all50 by blast
  then have c4: "calculate_route_safety_scores demo_optimizer_plain demo_route 0 = Inr ?r \<and>
        length (points ?r) = 3 \<and> total_safety_score ?r = 3 * 50"
    using demo_route_scored len by simp
  show ?thesis
    using c1 c2 c3 c4 by blast
qed

section \<open>Selecting the best route\<close>









section \<open>No candidate route\<close>












end
